theory Spec2Isabelle
  imports Main "HOL-Library.Sublist"
begin

section \<open>Data model (types/index.ts)\<close>

text \<open>
  JavaScript numbers that the program uses as identifiers, positions and counts are
  modelled as \<open>int\<close>; strings are lists of code units.  An optional property
  (\<open>backendId?: number\<close>) is an \<open>option\<close>.  A string property that the code
  lets be absent, \<open>null\<close> or a string is a \<open>jsstring\<close>.
\<close>

datatype TaskStatus = Todo | InProgress | Done

datatype Priority = Low | Medium | High

datatype jsstring = Undefined | Null | Str string

record Task =
  id_t :: string
  title :: string
  description :: jsstring
  status :: TaskStatus
  priority :: "Priority option"
  createdAt :: string
  updatedAt :: string
  backendId :: "int option"
  columnId :: "int option"
  order_t :: "int option"

record BackendColumn =
  id_col :: int
  title_col :: string
  order_col :: int
  created_at_col :: string

record BackendTask =
  id_b :: int
  title_b :: string
  description_b :: jsstring
  column_id :: int
  order_b :: int
  created_at :: string

record CreateTaskRequest =
  title_c :: string
  description_c :: jsstring
  column_id_c :: int
  order_c :: int

record UpdateTaskRequest =
  title_u :: "string option"
  description_u :: jsstring
  order_u :: "int option"

text \<open>The two lookup tables.  \<open>COLUMN_STATUS_MAP\<close> is a \<open>Record<number, TaskStatus>\<close>
  with three keys, so a lookup of any other number yields \<open>undefined\<close>.\<close>

definition COLUMN_STATUS_MAP :: "int \<Rightarrow> TaskStatus option" where
  "COLUMN_STATUS_MAP c =
     (if c = 1 then Some Todo
      else if c = 2 then Some InProgress
      else if c = 3 then Some Done
      else None)"

fun STATUS_COLUMN_MAP :: "TaskStatus \<Rightarrow> int" where
  "STATUS_COLUMN_MAP Todo = 1"
| "STATUS_COLUMN_MAP InProgress = 2"
| "STATUS_COLUMN_MAP Done = 3"

section \<open>JavaScript primitives used by the code\<close>

text \<open>\<open>x || y\<close> on a string-valued property: \<open>undefined\<close>, \<open>null\<close> and the
  empty string are falsy.\<close>

fun truthy :: "jsstring \<Rightarrow> bool" where
  "truthy Undefined = False"
| "truthy Null = False"
| "truthy (Str s) = (s \<noteq> [])"

text \<open>\<open>String(n)\<close> for an integer \<open>n\<close>: its decimal numeral.\<close>

fun digits :: "nat \<Rightarrow> string" where
  "digits n = (if n < 10 then [''0123456789'' ! n]
               else digits (n div 10) @ [''0123456789'' ! (n mod 10)])"

definition String :: "int \<Rightarrow> string" where
  "String n = (if n < 0 then CHR ''-'' # digits (nat (- n)) else digits (nat n))"

text \<open>\<open>String.prototype.trim\<close> on code units below 256: tab, line feed, vertical
  tab, form feed, carriage return, space and no-break space are stripped from both ends.\<close>

definition isWhiteSpace :: "char \<Rightarrow> bool" where
  "isWhiteSpace c = (of_char c \<in> {9, 10, 11, 12, 13, 32, 160 :: nat})"

definition trim :: "string \<Rightarrow> string" where
  "trim s = rev (dropWhile isWhiteSpace (rev (dropWhile isWhiteSpace s)))"

text \<open>The clock reads of an optimistic edit: \<open>Date.now()\<close> and
  \<open>new Date().toISOString()\<close>, the latter read a second time by the create handler.\<close>

record clock =
  dateNow :: int
  isoNow :: string
  isoNow2 :: string

section \<open>services/kanban.service.ts: data transformation\<close>

definition transformBackendTask :: "BackendTask \<Rightarrow> Task" where
  "transformBackendTask backendTask =
     (let st = (case COLUMN_STATUS_MAP (column_id backendTask) of
                  None \<Rightarrow> Todo | Some s \<Rightarrow> s)
      in \<lparr> id_t = String (id_b backendTask),
           title = title_b backendTask,
           description = (if truthy (description_b backendTask)
                          then description_b backendTask else Undefined),
           status = st,
           priority = None,
           createdAt = created_at backendTask,
           updatedAt = created_at backendTask,
           backendId = Some (id_b backendTask),
           columnId = Some (column_id backendTask),
           order_t = Some (order_b backendTask) \<rparr>)"

text \<open>\<open>addTask\<close> takes a task without \<open>id\<close>, \<open>createdAt\<close> and \<open>updatedAt\<close>;
  of what remains, \<open>transformToCreateRequest\<close> reads \<open>title\<close>, \<open>description\<close>
  and \<open>status\<close>.\<close>

record TaskInput =
  title_i :: string
  description_i :: jsstring
  status_i :: TaskStatus

definition transformToCreateRequest :: "TaskInput \<Rightarrow> int \<Rightarrow> CreateTaskRequest" where
  "transformToCreateRequest task ord =
     (let columnId' = (if STATUS_COLUMN_MAP (status_i task) \<noteq> 0
                       then STATUS_COLUMN_MAP (status_i task) else 1)
      in \<lparr> title_c = title_i task,
           description_c = (if truthy (description_i task) then description_i task else Null),
           column_id_c = columnId',
           order_c = ord \<rparr>)"

text \<open>\<open>Partial<Task>\<close> as read by \<open>transformToUpdateRequest\<close>: only \<open>title\<close>,
  \<open>description\<close> and \<open>order\<close> are looked at.\<close>

record TaskUpdates =
  title_p :: "string option"
  description_p :: jsstring
  order_p :: "int option"

definition transformToUpdateRequest :: "TaskUpdates \<Rightarrow> UpdateTaskRequest" where
  "transformToUpdateRequest updates =
     \<lparr> title_u = title_p updates,
       description_u = (if description_p updates = Undefined then Undefined
                        else if truthy (description_p updates) then description_p updates
                        else Null),
       order_u = order_p updates \<rparr>"

section \<open>lib/kanban-utils.ts: the board view-model\<close>

definition getTasksByStatus :: "Task list \<Rightarrow> TaskStatus \<Rightarrow> Task list" where
  "getTasksByStatus tasks st = filter (\<lambda>task. status task = st) tasks"

section \<open>hooks/useKanbanQueries.ts: optimistic mutations on the query cache\<close>

text \<open>The cache entry under the tasks key is a task array or \<open>undefined\<close>
  (\<open>getQueryData\<close> before the first fetch has settled).  Each \<open>onMutate\<close>
  returns the new cache and its context \<open>{ previousTasks }\<close>.\<close>

type_synonym cache = "Task list option"

record MutationContext =
  previousTasks :: "Task list option"

record MoveVariables =
  taskId_m :: int
  targetColumnId :: int
  newOrder :: int

record UpdateVariables =
  taskId_u :: int
  data_u :: UpdateTaskRequest

definition optimisticTask :: "clock \<Rightarrow> CreateTaskRequest \<Rightarrow> Task" where
  "optimisticTask clk newTask =
     \<lparr> id_t = ''temp-'' @ String (dateNow clk),
       title = title_c newTask,
       description = (if truthy (description_c newTask) then description_c newTask
                      else Undefined),
       status = Todo,
       priority = None,
       createdAt = isoNow clk,
       updatedAt = isoNow2 clk,
       backendId = None,
       columnId = Some (column_id_c newTask),
       order_t = Some (order_c newTask) \<rparr>"

definition useCreateTask_onMutate ::
  "clock \<Rightarrow> CreateTaskRequest \<Rightarrow> cache \<Rightarrow> cache \<times> MutationContext" where
  "useCreateTask_onMutate clk newTask c =
     (case c of
        None \<Rightarrow> (c, \<lparr> previousTasks = None \<rparr>)
      | Some previous \<Rightarrow>
          (Some (previous @ [optimisticTask clk newTask]),
           \<lparr> previousTasks = Some previous \<rparr>))"

text \<open>\<open>{ ...task, ...data, updatedAt }\<close>: a property of \<open>data\<close> overrides the task's
  only when the request object has it.\<close>

definition mergeUpdate :: "clock \<Rightarrow> UpdateTaskRequest \<Rightarrow> Task \<Rightarrow> Task" where
  "mergeUpdate clk d task =
     task \<lparr> title := (case title_u d of None \<Rightarrow> title task | Some s \<Rightarrow> s),
            description := (if description_u d = Undefined then description task
                            else description_u d),
            order_t := (case order_u d of None \<Rightarrow> order_t task | Some n \<Rightarrow> Some n),
            updatedAt := isoNow clk \<rparr>"

definition useUpdateTask_onMutate ::
  "clock \<Rightarrow> UpdateVariables \<Rightarrow> cache \<Rightarrow> cache \<times> MutationContext" where
  "useUpdateTask_onMutate clk v c =
     (case c of
        None \<Rightarrow> (c, \<lparr> previousTasks = None \<rparr>)
      | Some previous \<Rightarrow>
          (Some (map (\<lambda>task. if backendId task = Some (taskId_u v)
                              then mergeUpdate clk (data_u v) task else task) previous),
           \<lparr> previousTasks = Some previous \<rparr>))"

definition useDeleteTask_onMutate ::
  "int \<Rightarrow> cache \<Rightarrow> cache \<times> MutationContext" where
  "useDeleteTask_onMutate taskId c =
     (case c of
        None \<Rightarrow> (c, \<lparr> previousTasks = None \<rparr>)
      | Some previous \<Rightarrow>
          (Some (filter (\<lambda>task. backendId task \<noteq> Some taskId) previous),
           \<lparr> previousTasks = Some previous \<rparr>))"

definition useMoveTask_onMutate ::
  "clock \<Rightarrow> MoveVariables \<Rightarrow> cache \<Rightarrow> cache \<times> MutationContext" where
  "useMoveTask_onMutate clk v c =
     (case c of
        None \<Rightarrow> (c, \<lparr> previousTasks = None \<rparr>)
      | Some previous \<Rightarrow>
          (Some (map (\<lambda>task. if backendId task = Some (taskId_m v)
                              then task \<lparr> columnId := Some (targetColumnId v),
                                          order_t := Some (newOrder v),
                                          updatedAt := isoNow clk \<rparr>
                              else task) previous),
           \<lparr> previousTasks = Some previous \<rparr>))"

text \<open>The four \<open>onError\<close> handlers have the same body: write the snapshot back when
  the context holds one.\<close>

definition onError :: "MutationContext \<Rightarrow> cache \<Rightarrow> cache" where
  "onError ctx c = (case previousTasks ctx of None \<Rightarrow> c | Some previous \<Rightarrow> Some previous)"

text \<open>A mutation is the hook that runs it together with its variables.\<close>

datatype mutation =
    CreateTask CreateTaskRequest
  | UpdateTask UpdateVariables
  | DeleteTask int
  | MoveTask MoveVariables

fun onMutate :: "clock \<Rightarrow> mutation \<Rightarrow> cache \<Rightarrow> cache \<times> MutationContext" where
  "onMutate clk (CreateTask newTask) c = useCreateTask_onMutate clk newTask c"
| "onMutate clk (UpdateTask v) c = useUpdateTask_onMutate clk v c"
| "onMutate clk (DeleteTask taskId) c = useDeleteTask_onMutate taskId c"
| "onMutate clk (MoveTask v) c = useMoveTask_onMutate clk v c"


section \<open>hooks/useKanban.ts: the operations the components call\<close>

text \<open>\<open>const { data: tasks = [] } = useTasks()\<close>: the hook's task list is the cached
  array, or the empty array while there is none.  An operation reads this list and then
  runs its mutation on the same cache: one operation at a time, with no other write
  between the read and the optimistic edit.\<close>

definition tasksOf :: "cache \<Rightarrow> Task list" where
  "tasksOf c = (case c of None \<Rightarrow> [] | Some ts \<Rightarrow> ts)"

text \<open>The early return of \<open>moveTask\<close>, \<open>deleteTask\<close> and \<open>updateTask\<close>, which logs
  ``Task not found or missing backend ID'' and issues nothing.  Its test is
  \<open>!task || !task.backendId\<close>: no task with the id, a task without backend id, or a
  backend id of 0, which JavaScript takes for false.\<close>

datatype kanban_error = Task_not_found_or_missing_backend_ID

text \<open>Each operation returns the cache as \<open>mutate\<close> leaves it before the network call
  settles, and either the early return or the variables handed to the mutation with the
  context its \<open>onMutate\<close> produced.\<close>

definition moveTask ::
  "clock \<Rightarrow> cache \<Rightarrow> string \<Rightarrow> TaskStatus
     \<Rightarrow> cache \<times> (kanban_error + MoveVariables \<times> MutationContext)" where
  "moveTask clk c taskId newStatus =
     (let tasks = tasksOf c in
      case find (\<lambda>t. id_t t = taskId) tasks of
        None \<Rightarrow> (c, Inl Task_not_found_or_missing_backend_ID)
      | Some task \<Rightarrow>
          (case backendId task of
             None \<Rightarrow> (c, Inl Task_not_found_or_missing_backend_ID)
           | Some b \<Rightarrow>
               if b = 0 then (c, Inl Task_not_found_or_missing_backend_ID)
               else
                 let tasksInTargetColumn = filter (\<lambda>t. status t = newStatus) tasks;
                     v = \<lparr> taskId_m = b,
                           targetColumnId = STATUS_COLUMN_MAP newStatus,
                           newOrder = int (length tasksInTargetColumn) \<rparr>;
                     (c', ctx) = useMoveTask_onMutate clk v c
                 in (c', Inr (v, ctx))))"

definition addTask ::
  "clock \<Rightarrow> cache \<Rightarrow> TaskInput \<Rightarrow> cache \<times> CreateTaskRequest \<times> MutationContext" where
  "addTask clk c task =
     (let tasks = tasksOf c;
          tasksInColumn = filter (\<lambda>t. status t = status_i task) tasks;
          createRequest = transformToCreateRequest task (int (length tasksInColumn));
          (c', ctx) = useCreateTask_onMutate clk createRequest c
      in (c', createRequest, ctx))"

definition deleteTask ::
  "cache \<Rightarrow> string \<Rightarrow> cache \<times> (kanban_error + int \<times> MutationContext)" where
  "deleteTask c taskId =
     (case find (\<lambda>t. id_t t = taskId) (tasksOf c) of
        None \<Rightarrow> (c, Inl Task_not_found_or_missing_backend_ID)
      | Some task \<Rightarrow>
          (case backendId task of
             None \<Rightarrow> (c, Inl Task_not_found_or_missing_backend_ID)
           | Some b \<Rightarrow>
               if b = 0 then (c, Inl Task_not_found_or_missing_backend_ID)
               else
                 let (c', ctx) = useDeleteTask_onMutate b c
                 in (c', Inr (b, ctx))))"

definition updateTask ::
  "clock \<Rightarrow> cache \<Rightarrow> string \<Rightarrow> TaskUpdates
     \<Rightarrow> cache \<times> (kanban_error + UpdateVariables \<times> MutationContext)" where
  "updateTask clk c taskId updates =
     (case find (\<lambda>t. id_t t = taskId) (tasksOf c) of
        None \<Rightarrow> (c, Inl Task_not_found_or_missing_backend_ID)
      | Some task \<Rightarrow>
          (case backendId task of
             None \<Rightarrow> (c, Inl Task_not_found_or_missing_backend_ID)
           | Some b \<Rightarrow>
               if b = 0 then (c, Inl Task_not_found_or_missing_backend_ID)
               else
                 let v = \<lparr> taskId_u = b,
                           data_u = transformToUpdateRequest updates \<rparr>;
                     (c', ctx) = useUpdateTask_onMutate clk v c
                 in (c', Inr (v, ctx))))"

section \<open>components/kanban/KanbanBoard.tsx: the drag gesture handler\<close>

text \<open>The board's columns: the backend columns sorted by \<open>order\<close>, mapped through
  \<open>COLUMN_STATUS_MAP\<close>, the unmapped ones filtered out.\<close>

definition columns :: "BackendColumn list \<Rightarrow> TaskStatus list" where
  "columns backendColumns =
     List.map_filter (\<lambda>col. COLUMN_STATUS_MAP (id_col col))
       (sort_key order_col backendColumns)"

text \<open>The identifier of a drop zone is a string; the three column drop zones carry the
  status literals, a task card carries its task id.\<close>

fun statusLiteral :: "TaskStatus \<Rightarrow> string" where
  "statusLiteral Todo = ''todo''"
| "statusLiteral InProgress = ''in-progress''"
| "statusLiteral Done = ''done''"

record DragEndEvent =
  active_id :: string
  over_id :: "string option"

record BoardState =
  activeTask :: "Task option"
  tasksCache :: cache

definition handleDragStart :: "string \<Rightarrow> BoardState \<Rightarrow> BoardState" where
  "handleDragStart active st =
     st \<lparr> activeTask := find (\<lambda>t. id_t t = active) (tasksOf (tasksCache st)) \<rparr>"

text \<open>\<open>handleDragEnd\<close> returns the new state and the \<open>moveTask\<close> call it made, if
  any.  \<open>columns.includes(newStatus)\<close> compares the drop zone's identifier with the
  status literals of the board's columns.\<close>

definition handleDragEnd ::
  "clock \<Rightarrow> TaskStatus list \<Rightarrow> DragEndEvent \<Rightarrow> BoardState
     \<Rightarrow> BoardState \<times> (string \<times> TaskStatus) option" where
  "handleDragEnd clk cols event st =
     (case over_id event of
        None \<Rightarrow> (st \<lparr> activeTask := None \<rparr>, None)
      | Some over \<Rightarrow>
          (case find (\<lambda>s. statusLiteral s = over) cols of
             Some newStatus \<Rightarrow>
               (st \<lparr> tasksCache := fst (moveTask clk (tasksCache st) (active_id event) newStatus),
                     activeTask := None \<rparr>,
                Some (active_id event, newStatus))
           | None \<Rightarrow> (st \<lparr> activeTask := None \<rparr>, None)))"

section \<open>lib/validations/task-schema.ts and components/kanban/TaskCreateForm.tsx\<close>

text \<open>The form's values.  The form has no input for \<open>status\<close>: it is the column's
  status given to the form, so the enum check of the schema always passes.\<close>

record TaskCreateFormValues =
  title_f :: string
  description_f :: "string option"
  status_f :: TaskStatus

text \<open>The title schema is \<open>z.string().min(3, ...).max(200, ...).trim()\<close>.  The checks of a
  string schema run in the order in which they are chained, each on the value the
  previous ones left: \<open>min\<close> and \<open>max\<close> see the string as entered, \<open>trim\<close> then
  strips it.  Validation fails when a check has raised an issue.\<close>

definition titleIssues :: "string \<Rightarrow> string list" where
  "titleIssues t =
     (if length t < 3 then [''Title must be at least 3 characters''] else []) @
     (if length t > 200 then [''Title must not exceed 200 characters''] else [])"

definition taskCreateSchema ::
  "TaskCreateFormValues \<Rightarrow> string list + TaskCreateFormValues" where
  "taskCreateSchema v =
     (if titleIssues (title_f v) \<noteq> [] then Inl (titleIssues (title_f v))
      else Inr \<lparr> title_f = trim (title_f v),
                 description_f = map_option trim (description_f v),
                 status_f = status_f v \<rparr>)"

definition onSubmit ::
  "clock \<Rightarrow> cache \<Rightarrow> TaskCreateFormValues
     \<Rightarrow> cache \<times> CreateTaskRequest \<times> MutationContext" where
  "onSubmit clk c d =
     addTask clk c
       \<lparr> title_i = title_f d,
         description_i = (case description_f d of
                            None \<Rightarrow> Undefined
                          | Some s \<Rightarrow> if s \<noteq> [] then Str s else Undefined),
         status_i = status_f d \<rparr>"

text \<open>\<open>form.handleSubmit(onSubmit)\<close> with the schema as resolver: \<open>onSubmit\<close> is
  called with the parsed values when the schema accepts, and not at all otherwise.  What
  \<open>onSubmit\<close> does after \<open>addTask\<close> (resetting the form, closing the dialog) does
  not touch the cache.\<close>

definition handleSubmit ::
  "clock \<Rightarrow> cache \<Rightarrow> TaskCreateFormValues
     \<Rightarrow> cache \<times> (string list + CreateTaskRequest \<times> MutationContext)" where
  "handleSubmit clk c v =
     (case taskCreateSchema v of
        Inl issues \<Rightarrow> (c, Inl issues)
      | Inr d \<Rightarrow> (let (c', r) = onSubmit clk c d in (c', Inr r)))"


section \<open>Ordering of a column's tasks\<close>

text \<open>Ascending by the \<open>order\<close> field: both tasks carry an order and the first one's
  is not greater.  The program never compares two orders itself; the relation states what
  a list ``sorted by order'' is.\<close>

definition order_le :: "Task \<Rightarrow> Task \<Rightarrow> bool" where
  "order_le t u =
     (case (order_t t, order_t u) of (Some a, Some b) \<Rightarrow> a \<le> b | _ \<Rightarrow> False)"

section \<open>Scenario data\<close>

text \<open>A board as the store returns it: tasks 5 and 7 in column 1 (todo), task 8 in
  column 3 (done), and task 9 in a column the client has no status for.\<close>

definition clockA :: clock where
  "clockA = \<lparr> dateNow = 1730000000000,
              isoNow = ''2024-10-27T03:33:20.000Z'',
              isoNow2 = ''2024-10-27T03:33:20.001Z'' \<rparr>"

definition backend5 :: BackendTask where
  "backend5 = \<lparr> id_b = 5, title_b = ''Design page'', description_b = Null,
                column_id = 1, order_b = 0, created_at = ''2024-01-19T14:30:00Z'' \<rparr>"

definition backend7 :: BackendTask where
  "backend7 = \<lparr> id_b = 7, title_b = ''Fix login'', description_b = Str ''Session expires'',
                column_id = 1, order_b = 1, created_at = ''2024-01-20T10:00:00Z'' \<rparr>"

definition backend8 :: BackendTask where
  "backend8 = \<lparr> id_b = 8, title_b = ''Set up CI'', description_b = Null,
                column_id = 3, order_b = 0, created_at = ''2024-01-21T09:15:00Z'' \<rparr>"

definition backend9 :: BackendTask where
  "backend9 = \<lparr> id_b = 9, title_b = ''Archive notes'', description_b = Null,
                column_id = 4, order_b = 0, created_at = ''2024-01-22T08:00:00Z'' \<rparr>"

definition boardTasks :: "Task list" where
  "boardTasks = map transformBackendTask [backend5, backend7, backend8]"

definition writeReport :: TaskInput where
  "writeReport = \<lparr> title_i = ''Write report'', description_i = Undefined, status_i = Todo \<rparr>"

definition backendColumns3 :: "BackendColumn list" where
  "backendColumns3 =
     [\<lparr> id_col = 3, title_col = ''Done'', order_col = 2, created_at_col = ''2024-01-01T00:00:00Z'' \<rparr>,
      \<lparr> id_col = 1, title_col = ''Todo'', order_col = 0, created_at_col = ''2024-01-01T00:00:00Z'' \<rparr>,
      \<lparr> id_col = 2, title_col = ''In Progress'', order_col = 1, created_at_col = ''2024-01-01T00:00:00Z'' \<rparr>]"


section \<open>Evaluation lemmas\<close>

declare digits.simps [simp del]

lemma String_small: "String 5 = ''5''" "String 7 = ''7''" "String 8 = ''8''" "String 9 = ''9''"
  by (simp_all add: String_def digits.simps)

lemma String_clockA: "String (dateNow clockA) = ''1730000000000''"
  by (simp add: clockA_def String_def digits.simps)

lemma boardTasks_eq:
  "boardTasks =
    [\<lparr> id_t = ''5'', title = ''Design page'', description = Undefined, status = Todo,
        priority = None, createdAt = ''2024-01-19T14:30:00Z'',
        updatedAt = ''2024-01-19T14:30:00Z'', backendId = Some 5, columnId = Some 1,
        order_t = Some 0 \<rparr>,
     \<lparr> id_t = ''7'', title = ''Fix login'', description = Str ''Session expires'',
        status = Todo, priority = None, createdAt = ''2024-01-20T10:00:00Z'',
        updatedAt = ''2024-01-20T10:00:00Z'', backendId = Some 7, columnId = Some 1,
        order_t = Some 1 \<rparr>,
     \<lparr> id_t = ''8'', title = ''Set up CI'', description = Undefined, status = Done,
        priority = None, createdAt = ''2024-01-21T09:15:00Z'',
        updatedAt = ''2024-01-21T09:15:00Z'', backendId = Some 8, columnId = Some 3,
        order_t = Some 0 \<rparr>]"
  by (simp add: boardTasks_def transformBackendTask_def backend5_def backend7_def backend8_def
      COLUMN_STATUS_MAP_def String_small)

lemma columns_backendColumns3: "columns backendColumns3 = [Todo, InProgress, Done]"
  by (simp add: columns_def backendColumns3_def List.map_filter_def COLUMN_STATUS_MAP_def)

lemma find_Some_mem: "find P xs = Some x \<Longrightarrow> x \<in> set xs \<and> P x"
  by (induction xs) (auto split: if_splits)

lemma find_None_image: "find (\<lambda>s. f s = x) xs = None \<longleftrightarrow> x \<notin> f ` set xs"
  by (induction xs) auto

section \<open>Rollback of a failed mutation\<close>

text \<open>A snapshot, once taken, is what \<open>onError\<close> leaves in the cache, whatever the
  cache held when the error arrived.\<close>

lemma onError_snapshot: "previousTasks ctx = Some ts \<Longrightarrow> onError ctx c2 = Some ts"
  by (simp add: onError_def)

text \<open>
  Claim C1.  For each of the four mutations (create, update, delete, move): the context
  that \<open>onMutate\<close> returns holds the cache as it was immediately before the optimistic
  edit, and when the mutation fails, \<open>onError\<close> applied to the optimistically edited
  cache yields exactly that earlier cache.  This covers the case where no task list is
  cached: nothing is edited and nothing is written back.
\<close>

theorem C1_rollback_restores_snapshot:
  "onMutate clk m c = (c', ctx) \<Longrightarrow> previousTasks ctx = c \<and> onError ctx c' = c"
  by (cases m; cases c)
     (auto simp: useCreateTask_onMutate_def useUpdateTask_onMutate_def
        useDeleteTask_onMutate_def useMoveTask_onMutate_def onError_def)

theorem C1_rollback_restores_snapshot_witness:
  "onMutate clockA (DeleteTask 7) (Some boardTasks) =
     (Some (map transformBackendTask [backend5, backend8]),
      \<lparr> previousTasks = Some boardTasks \<rparr>) \<and>
   onError \<lparr> previousTasks = Some boardTasks \<rparr>
     (Some (map transformBackendTask [backend5, backend8])) = Some boardTasks"
proof -
  have m: "onMutate clockA (DeleteTask 7) (Some boardTasks) =
     (Some (map transformBackendTask [backend5, backend8]),
      \<lparr> previousTasks = Some boardTasks \<rparr>)"
    by (simp add: useDeleteTask_onMutate_def boardTasks_def transformBackendTask_def
        backend5_def backend7_def backend8_def)
  from C1_rollback_restores_snapshot [OF m] m show ?thesis by simp
qed

section \<open>The lookup tables\<close>

text \<open>
  Claim C8.  The two lookup tables are inverse to each other: every status maps to a
  column id that \<open>COLUMN_STATUS_MAP\<close> maps back to it, and each of the column ids 1, 2
  and 3 maps to a status that \<open>STATUS_COLUMN_MAP\<close> maps back to it.  The column ids
  with an entry are exactly 1, 2 and 3, and these are exactly the images of the three
  statuses.
\<close>

theorem C8_tables_bijective:
  "(\<forall>s. COLUMN_STATUS_MAP (STATUS_COLUMN_MAP s) = Some s) \<and>
   (\<forall>c\<in>{1, 2, 3}. \<exists>s. COLUMN_STATUS_MAP c = Some s \<and> STATUS_COLUMN_MAP s = c) \<and>
   dom COLUMN_STATUS_MAP = {1, 2, 3} \<and> range STATUS_COLUMN_MAP = {1, 2, 3}"
proof (intro conjI)
  show "\<forall>s. COLUMN_STATUS_MAP (STATUS_COLUMN_MAP s) = Some s"
  proof
    fix s show "COLUMN_STATUS_MAP (STATUS_COLUMN_MAP s) = Some s"
      by (cases s) (simp_all add: COLUMN_STATUS_MAP_def)
  qed
  show "\<forall>c\<in>{1, 2, 3}. \<exists>s. COLUMN_STATUS_MAP c = Some s \<and> STATUS_COLUMN_MAP s = c"
    by (simp add: COLUMN_STATUS_MAP_def)
  show "dom COLUMN_STATUS_MAP = {1, 2, 3}"
    by (auto simp: COLUMN_STATUS_MAP_def dom_def split: if_splits)
  show "range STATUS_COLUMN_MAP = {1, 2, 3}"
  proof
    show "range STATUS_COLUMN_MAP \<subseteq> {1, 2, 3}"
    proof
      fix x assume "x \<in> range STATUS_COLUMN_MAP"
      then obtain s where "x = STATUS_COLUMN_MAP s" by blast
      then show "x \<in> {1, 2, 3}" by (cases s) simp_all
    qed
    have "STATUS_COLUMN_MAP Todo = 1" "STATUS_COLUMN_MAP InProgress = 2"
      "STATUS_COLUMN_MAP Done = 3"
      by simp_all
    then show "{1, 2, 3} \<subseteq> range STATUS_COLUMN_MAP"
      by (metis insert_subset empty_subsetI rangeI)
  qed
qed

theorem C8_tables_bijective_witness:
  "COLUMN_STATUS_MAP (STATUS_COLUMN_MAP InProgress) = Some InProgress \<and>
   (2::int) \<in> {1, 2, 3} \<and>
   COLUMN_STATUS_MAP 2 = Some InProgress \<and> STATUS_COLUMN_MAP InProgress = 2"
  using C8_tables_bijective by (simp add: COLUMN_STATUS_MAP_def)

section \<open>Tasks fetched from the store\<close>

text \<open>
  Claim C10.  The task that \<open>transformBackendTask\<close> makes of a backend record has the
  record's \<open>created_at\<close> as its \<open>updatedAt\<close> and no priority; so in a task list fetched
  from the store every task's update time equals its creation time and none has a
  priority.
\<close>

theorem C10_fetched_task_times:
  "updatedAt (transformBackendTask b) = created_at b \<and>
   priority (transformBackendTask b) = None \<and>
   (\<forall>t\<in>set (map transformBackendTask bs). updatedAt t = createdAt t \<and> priority t = None)"
  by (simp add: transformBackendTask_def Let_def)

theorem C10_fetched_task_times_witness:
  "updatedAt (transformBackendTask backend7) = ''2024-01-20T10:00:00Z'' \<and>
   priority (transformBackendTask backend7) = None \<and>
   transformBackendTask backend7 \<in> set (map transformBackendTask [backend5, backend7]) \<and>
   updatedAt (transformBackendTask backend7) = createdAt (transformBackendTask backend7)"
  using C10_fetched_task_times [of backend7 "[backend5, backend7]"]
  by (simp add: backend7_def transformBackendTask_def)


section \<open>Creating a task\<close>

text \<open>
  Claim C2, as stated, fails: the optimistic edit of \<open>useCreateTask\<close> is guarded by
  \<open>if (previousTasks)\<close>.  When no task list is cached, \<open>addTask\<close> leaves the cache
  without a task list, so no synthetic task appears in it or in the todo column.
\<close>

theorem C2_no_cached_list_counterexample:
  "fst (addTask clockA None writeReport) = None \<and>
   getTasksByStatus (tasksOf (fst (addTask clockA None writeReport))) Todo = []"
  by (simp add: addTask_def tasksOf_def useCreateTask_onMutate_def Let_def getTasksByStatus_def)

text \<open>
  Claim C2, amended.  For every \<open>addTask\<close> issued while a task list is cached, before
  the network call settles the cached list is the earlier list followed by one synthetic
  task: its id is \<open>temp-\<close> followed by the clock's milliseconds, it has no backend id,
  its column id is the image of the input's status under \<open>STATUS_COLUMN_MAP\<close>, and its
  order is the number of cached tasks whose status is the input's status.  When the
  input's status is todo, the synthetic task is listed in the todo column.
\<close>

theorem C2_synthetic_task_appended:
  "\<exists>syn. fst (addTask clk (Some ts) task) = Some (ts @ [syn]) \<and>
     id_t syn = ''temp-'' @ String (dateNow clk) \<and>
     backendId syn = None \<and>
     title syn = title_i task \<and>
     columnId syn = Some (STATUS_COLUMN_MAP (status_i task)) \<and>
     order_t syn = Some (int (length (getTasksByStatus ts (status_i task)))) \<and>
     (status_i task = Todo \<longrightarrow> syn \<in> set (getTasksByStatus (ts @ [syn]) Todo))"
  by (cases "status_i task")
     (simp_all add: addTask_def tasksOf_def useCreateTask_onMutate_def Let_def
      getTasksByStatus_def optimisticTask_def transformToCreateRequest_def)

text \<open>Scenario A: ``Write report'' created in todo while the todo column holds tasks 5
  and 7.\<close>

theorem C2_synthetic_task_appended_witness:
  "\<exists>syn. fst (addTask clockA (Some boardTasks) writeReport) = Some (boardTasks @ [syn]) \<and>
     id_t syn = ''temp-1730000000000'' \<and> columnId syn = Some 1 \<and> order_t syn = Some 2 \<and>
     status_i writeReport = Todo \<and> syn \<in> set (getTasksByStatus (boardTasks @ [syn]) Todo)"
proof -
  have len: "int (length (getTasksByStatus boardTasks Todo)) = 2"
    by (simp add: boardTasks_eq getTasksByStatus_def)
  have st: "status_i writeReport = Todo" by (simp add: writeReport_def)
  from C2_synthetic_task_appended [of clockA boardTasks writeReport] show ?thesis
    by (auto simp: len st String_clockA)
qed

section \<open>The board view-model\<close>

text \<open>
  Claim C3, as stated, fails: \<open>transformBackendTask\<close> falls back to the status todo
  when the column id has no entry in \<open>COLUMN_STATUS_MAP\<close>.  Task 9 sits in column 4,
  which has no entry, and the view-model lists it in the todo column.
\<close>

theorem C3_unmapped_column_counterexample:
  "COLUMN_STATUS_MAP (column_id backend9) = None \<and>
   getTasksByStatus (map transformBackendTask [backend9]) Todo = [transformBackendTask backend9]"
  by (simp add: backend9_def COLUMN_STATUS_MAP_def getTasksByStatus_def transformBackendTask_def)

text \<open>
  Claim C3, amended.  A fetched task whose column id has no entry in the
  column-to-status table is given the status todo and keeps its column id: the
  view-model lists it in the todo column, and in neither of the other two columns.
\<close>

theorem C3_unmapped_column_listed_in_todo:
  "COLUMN_STATUS_MAP (column_id b) = None \<Longrightarrow> b \<in> set bs \<Longrightarrow>
   transformBackendTask b \<in> set (getTasksByStatus (map transformBackendTask bs) Todo) \<and>
   transformBackendTask b \<notin> set (getTasksByStatus (map transformBackendTask bs) InProgress) \<and>
   transformBackendTask b \<notin> set (getTasksByStatus (map transformBackendTask bs) Done) \<and>
   columnId (transformBackendTask b) = Some (column_id b)"
  by (auto simp: getTasksByStatus_def transformBackendTask_def)

theorem C3_unmapped_column_listed_in_todo_witness:
  "COLUMN_STATUS_MAP (column_id backend9) = None \<and> backend9 \<in> set [backend5, backend9] \<and>
   transformBackendTask backend9 \<in>
     set (getTasksByStatus (map transformBackendTask [backend5, backend9]) Todo) \<and>
   transformBackendTask backend9 \<notin>
     set (getTasksByStatus (map transformBackendTask [backend5, backend9]) InProgress) \<and>
   transformBackendTask backend9 \<notin>
     set (getTasksByStatus (map transformBackendTask [backend5, backend9]) Done)"
proof -
  have h: "COLUMN_STATUS_MAP (column_id backend9) = None"
    by (simp add: backend9_def COLUMN_STATUS_MAP_def)
  have m: "backend9 \<in> set [backend5, backend9]" by simp
  from C3_unmapped_column_listed_in_todo [OF h m] h m show ?thesis by simp
qed

text \<open>
  Claim C4, as stated, fails: \<open>getTasksByStatus\<close> filters and does not sort.  With
  task 7 (order 1) cached before task 5 (order 0), the todo column lists order 1 before
  order 0.
\<close>

theorem C4_not_sorted_counterexample:
  "map order_t (getTasksByStatus (map transformBackendTask [backend7, backend5]) Todo) =
     [Some 1, Some 0]"
  by (simp add: getTasksByStatus_def transformBackendTask_def backend5_def backend7_def
      COLUMN_STATUS_MAP_def)

text \<open>
  Claim C4, amended.  For every status, the view-model produces the cached tasks whose
  status is that status, in the order in which the cache holds them: the result has
  exactly those tasks and is a subsequence of the cached list.  It is ascending by order
  whenever the cached list is.
\<close>

theorem C4_column_in_cache_order:
  "set (getTasksByStatus ts s) = {t \<in> set ts. status t = s} \<and>
   subseq (getTasksByStatus ts s) ts \<and>
   (sorted_wrt order_le ts \<longrightarrow> sorted_wrt order_le (getTasksByStatus ts s))"
  by (auto simp: getTasksByStatus_def sorted_wrt_filter)

theorem C4_column_in_cache_order_witness:
  "sorted_wrt order_le (map transformBackendTask [backend5, backend8, backend7]) \<and>
   sorted_wrt order_le
     (getTasksByStatus (map transformBackendTask [backend5, backend8, backend7]) Todo) \<and>
   map id_t (getTasksByStatus (map transformBackendTask [backend5, backend8, backend7]) Todo) =
     [''5'', ''7'']"
proof -
  have s: "sorted_wrt order_le (map transformBackendTask [backend5, backend8, backend7])"
    by (simp add: order_le_def transformBackendTask_def backend5_def backend7_def backend8_def)
  have i: "map id_t
      (getTasksByStatus (map transformBackendTask [backend5, backend8, backend7]) Todo) =
     [''5'', ''7'']"
    by (simp add: getTasksByStatus_def transformBackendTask_def backend5_def backend7_def
        backend8_def COLUMN_STATUS_MAP_def String_small)
  from C4_column_in_cache_order [of "map transformBackendTask [backend5, backend8, backend7]" Todo]
    s i
  show ?thesis by simp
qed

section \<open>Moving a task\<close>

text \<open>
  Claim C5.  Let \<open>moveTask\<close> be called with the id of a cached task that carries a
  backend id (the code's test \<open>!task.backendId\<close> takes an absent id and the id 0 for
  missing).  Then the variables handed to the remote call are that backend id, the image
  of the target status under \<open>STATUS_COLUMN_MAP\<close> as target column id, and the number
  of cached tasks with the target status as new order.  Before the call settles, every
  cached task with that backend id has the target column id and the new order, every
  other task is unchanged, and the task with the given id is among the edited ones.  When
  the call fails, \<open>onError\<close> restores the cached list as it was, and with it the task's
  column and order.
\<close>

theorem C5_moveTask_append_to_end:
  assumes f: "find (\<lambda>t. id_t t = taskId) ts = Some task"
    and b: "backendId task = Some b" and nz: "b \<noteq> 0"
  shows "\<exists>ts' ctx.
     moveTask clk (Some ts) taskId newStatus =
       (Some ts', Inr (\<lparr> taskId_m = b, targetColumnId = STATUS_COLUMN_MAP newStatus,
                         newOrder = int (length (getTasksByStatus ts newStatus)) \<rparr>, ctx)) \<and>
     length ts' = length ts \<and>
     (\<forall>i<length ts.
        if backendId (ts ! i) = Some b
        then columnId (ts' ! i) = Some (STATUS_COLUMN_MAP newStatus) \<and>
             order_t (ts' ! i) = Some (int (length (getTasksByStatus ts newStatus))) \<and>
             id_t (ts' ! i) = id_t (ts ! i)
        else ts' ! i = ts ! i) \<and>
     (\<exists>t'\<in>set ts'. id_t t' = taskId \<and>
        columnId t' = Some (STATUS_COLUMN_MAP newStatus) \<and>
        order_t t' = Some (int (length (getTasksByStatus ts newStatus)))) \<and>
     onError ctx (Some ts') = Some ts"
proof -
  let ?v = "\<lparr> taskId_m = b, targetColumnId = STATUS_COLUMN_MAP newStatus,
              newOrder = int (length (getTasksByStatus ts newStatus)) \<rparr>"
  let ?edit = "\<lambda>t. if backendId t = Some b
                    then t \<lparr> columnId := Some (STATUS_COLUMN_MAP newStatus),
                             order_t := Some (int (length (getTasksByStatus ts newStatus))),
                             updatedAt := isoNow clk \<rparr>
                    else t"
  have run: "moveTask clk (Some ts) taskId newStatus =
      (Some (map ?edit ts), Inr (?v, \<lparr> previousTasks = Some ts \<rparr>))"
    using f b nz
    by (simp add: moveTask_def tasksOf_def useMoveTask_onMutate_def getTasksByStatus_def Let_def)
  have pointwise: "\<forall>i<length ts.
        if backendId (ts ! i) = Some b
        then columnId (map ?edit ts ! i) = Some (STATUS_COLUMN_MAP newStatus) \<and>
             order_t (map ?edit ts ! i) = Some (int (length (getTasksByStatus ts newStatus))) \<and>
             id_t (map ?edit ts ! i) = id_t (ts ! i)
        else map ?edit ts ! i = ts ! i"
    by simp
  from f have mem: "task \<in> set ts" and tid: "id_t task = taskId"
    using find_Some_mem [of "\<lambda>t. id_t t = taskId" ts task] by simp_all
  have "?edit task \<in> set (map ?edit ts)"
    using mem by simp
  moreover have "id_t (?edit task) = taskId \<and>
      columnId (?edit task) = Some (STATUS_COLUMN_MAP newStatus) \<and>
      order_t (?edit task) = Some (int (length (getTasksByStatus ts newStatus)))"
    using b tid by simp
  ultimately have moved: "\<exists>t'\<in>set (map ?edit ts). id_t t' = taskId \<and>
        columnId t' = Some (STATUS_COLUMN_MAP newStatus) \<and>
        order_t t' = Some (int (length (getTasksByStatus ts newStatus)))"
    by blast
  have restored: "onError \<lparr> previousTasks = Some ts \<rparr> (Some (map ?edit ts)) = Some ts"
    by (simp add: onError_def)
  from run pointwise moved restored show ?thesis
    by (intro exI [of _ "map ?edit ts"] exI [of _ "\<lparr> previousTasks = Some ts \<rparr>"]) simp
qed

text \<open>Scenario B: task 7 moved to done while the done column holds task 8.\<close>

theorem C5_moveTask_append_to_end_witness:
  "find (\<lambda>t. id_t t = ''7'') boardTasks = Some (transformBackendTask backend7) \<and>
   backendId (transformBackendTask backend7) = Some 7 \<and> (7::int) \<noteq> 0 \<and>
   (\<exists>ts' ctx.
      moveTask clockA (Some boardTasks) ''7'' Done =
        (Some ts', Inr (\<lparr> taskId_m = 7, targetColumnId = 3, newOrder = 1 \<rparr>, ctx)) \<and>
      (\<exists>t'\<in>set ts'. id_t t' = ''7'' \<and> columnId t' = Some 3 \<and> order_t t' = Some 1) \<and>
      onError ctx (Some ts') = Some boardTasks)"
proof -
  have f: "find (\<lambda>t. id_t t = ''7'') boardTasks = Some (transformBackendTask backend7)"
    by (simp add: boardTasks_def transformBackendTask_def backend5_def backend7_def
        backend8_def String_small)
  have b: "backendId (transformBackendTask backend7) = Some 7"
    by (simp add: transformBackendTask_def backend7_def)
  have n: "int (length (getTasksByStatus boardTasks Done)) = 1"
    by (simp add: boardTasks_eq getTasksByStatus_def)
  from C5_moveTask_append_to_end [OF f b, of clockA Done] f b show ?thesis
    by (simp add: n) blast
qed

section \<open>Updating a task that has no backend id\<close>

text \<open>
  Claim C6.  When \<open>updateTask\<close> is called with the id of a cached task that has no
  backend id, as every synthetic task has none, it takes its early return (the one that
  logs ``Task not found or missing backend ID''): no mutation is issued and the cache is
  the one it was called with.
\<close>

theorem C6_updateTask_not_synced:
  "find (\<lambda>t. id_t t = taskId) (tasksOf c) = Some task \<Longrightarrow> backendId task = None \<Longrightarrow>
   updateTask clk c taskId updates = (c, Inl Task_not_found_or_missing_backend_ID)"
  by (simp add: updateTask_def)

text \<open>Scenario C: the synthetic task of scenario A is updated before the store has
  answered.\<close>

theorem C6_updateTask_not_synced_witness:
  "find (\<lambda>t. id_t t = ''temp-1730000000000'')
     (tasksOf (fst (addTask clockA (Some boardTasks) writeReport))) =
     Some (optimisticTask clockA (transformToCreateRequest writeReport 2)) \<and>
   backendId (optimisticTask clockA (transformToCreateRequest writeReport 2)) = None \<and>
   updateTask clockA (fst (addTask clockA (Some boardTasks) writeReport))
     ''temp-1730000000000''
     \<lparr> title_p = Some ''Write the report'', description_p = Undefined, order_p = None \<rparr> =
     (fst (addTask clockA (Some boardTasks) writeReport),
      Inl Task_not_found_or_missing_backend_ID)"
proof -
  have f: "find (\<lambda>t. id_t t = ''temp-1730000000000'')
     (tasksOf (fst (addTask clockA (Some boardTasks) writeReport))) =
     Some (optimisticTask clockA (transformToCreateRequest writeReport 2))"
    by (simp add: addTask_def tasksOf_def useCreateTask_onMutate_def boardTasks_eq
        writeReport_def optimisticTask_def String_clockA Let_def)
  have b: "backendId (optimisticTask clockA (transformToCreateRequest writeReport 2)) = None"
    by (simp add: optimisticTask_def)
  from C6_updateTask_not_synced [OF f b] f b show ?thesis by simp
qed

section \<open>The drag gesture handler\<close>

text \<open>A gesture that ends over one of the board's columns does call \<open>moveTask\<close>.\<close>

lemma statusLiteral_inj: "statusLiteral s = statusLiteral s' \<Longrightarrow> s = s'"
  by (cases s; cases s') simp_all

lemma find_statusLiteral:
  "s \<in> set cols \<Longrightarrow> find (\<lambda>s'. statusLiteral s' = statusLiteral s) cols = Some s"
  by (induction cols) (auto dest: statusLiteral_inj)

lemma handleDragEnd_over_column:
  "over_id event = Some (statusLiteral s) \<Longrightarrow> s \<in> set cols \<Longrightarrow>
   snd (handleDragEnd clk cols event st) = Some (active_id event, s)"
  by (simp add: handleDragEnd_def find_statusLiteral)

text \<open>
  Claim C9.  When a drag gesture ends with no drop target, or over a drop target whose
  identifier is not the status of one of the board's columns, \<open>handleDragEnd\<close> makes no
  \<open>moveTask\<close> call, leaves the cached task list as it is and only sets the active task
  to \<open>null\<close>.
\<close>

theorem C9_drag_end_without_column:
  assumes "over_id event = None \<or>
           (\<exists>over. over_id event = Some over \<and> over \<notin> statusLiteral ` set cols)"
  shows "handleDragEnd clk cols event st = (st \<lparr> activeTask := None \<rparr>, None) \<and>
         tasksCache (fst (handleDragEnd clk cols event st)) = tasksCache st \<and>
         activeTask (fst (handleDragEnd clk cols event st)) = None"
proof -
  have run: "handleDragEnd clk cols event st = (st \<lparr> activeTask := None \<rparr>, None)"
  proof (cases "over_id event")
    case None
    then show ?thesis by (simp add: handleDragEnd_def)
  next
    case (Some over)
    with assms have "over \<notin> statusLiteral ` set cols" by simp
    then have "find (\<lambda>s. statusLiteral s = over) cols = None"
      by (simp add: find_None_image)
    with Some show ?thesis by (simp add: handleDragEnd_def)
  qed
  then show ?thesis by simp
qed

text \<open>Scenario D: task 7 is dragged and released outside every drop zone, and then
  released over the card of task 5.\<close>

theorem C9_drag_end_without_column_witness:
  "handleDragEnd clockA (columns backendColumns3) \<lparr> active_id = ''7'', over_id = None \<rparr>
     \<lparr> activeTask = Some (transformBackendTask backend7), tasksCache = Some boardTasks \<rparr> =
     (\<lparr> activeTask = None, tasksCache = Some boardTasks \<rparr>, None) \<and>
   ''5'' \<notin> statusLiteral ` set (columns backendColumns3) \<and>
   handleDragEnd clockA (columns backendColumns3) \<lparr> active_id = ''7'', over_id = Some ''5'' \<rparr>
     \<lparr> activeTask = Some (transformBackendTask backend7), tasksCache = Some boardTasks \<rparr> =
     (\<lparr> activeTask = None, tasksCache = Some boardTasks \<rparr>, None)"
proof -
  have n: "''5'' \<notin> statusLiteral ` set (columns backendColumns3)"
    by (simp add: columns_backendColumns3)
  from C9_drag_end_without_column
        [of "\<lparr> active_id = ''7'', over_id = None \<rparr>" "columns backendColumns3" clockA
          "\<lparr> activeTask = Some (transformBackendTask backend7), tasksCache = Some boardTasks \<rparr>"]
    C9_drag_end_without_column
        [of "\<lparr> active_id = ''7'', over_id = Some ''5'' \<rparr>" "columns backendColumns3" clockA
          "\<lparr> activeTask = Some (transformBackendTask backend7), tasksCache = Some boardTasks \<rparr>"]
    n
  show ?thesis by simp
qed

section \<open>Validation of the task-creation form\<close>

text \<open>A title that the schema's length checks refuse never reaches \<open>onSubmit\<close>: no
  request is issued and the cache is the one the form was submitted with.\<close>

lemma handleSubmit_rejects:
  "length (title_f v) < 3 \<or> length (title_f v) > 200 \<Longrightarrow>
   \<exists>issues. issues \<noteq> [] \<and> handleSubmit clk c v = (c, Inl issues)"
  by (auto simp: handleSubmit_def taskCreateSchema_def titleIssues_def)

text \<open>
  Claim C7 at a title of three spaces.  The schema checks the length before it trims:
  the title passes \<open>min(3)\<close>, is trimmed to the empty string, and \<open>onSubmit\<close> is
  called with it.  A create request with an empty title is issued and the synthetic task
  is put into the cache, although the title that leaves the schema check is shorter than
  3 characters.
\<close>

theorem C7_blank_title_accepted:
  "trim ''   '' = [] \<and>
   handleSubmit clockA (Some [])
     \<lparr> title_f = ''   '', description_f = Some [], status_f = Todo \<rparr> =
   (Some [optimisticTask clockA
            \<lparr> title_c = [], description_c = Null, column_id_c = 1, order_c = 0 \<rparr>],
    Inr (\<lparr> title_c = [], description_c = Null, column_id_c = 1, order_c = 0 \<rparr>,
         \<lparr> previousTasks = Some [] \<rparr>))"
  by (simp add: handleSubmit_def taskCreateSchema_def titleIssues_def trim_def isWhiteSpace_def
      onSubmit_def addTask_def tasksOf_def transformToCreateRequest_def
      useCreateTask_onMutate_def Let_def)

end
